theory Spec2Isabelle
  imports Main "HOL-Library.Sublist"
begin

section \<open>The I/O web app's Firebase helper (app/scripts/helper/firebase.js)\<close>

text \<open>
  The class \<open>IOFirebase\<close> is a thin adapter over the Firebase 2.x JavaScript client.
  The adapter's own code is embedded below method by method; the client library, the
  analytics sink, \<open>debugLog\<close> and the \<open>crc32\<close> helper are external to the file and are
  represented by the calls the adapter makes on them (a trace of events) and by a small
  model of the client state those calls act on.

  Conventions of the embedding:
  \<^item> JavaScript numbers are integers here (millisecond timestamps and offsets); \<open>NaN\<close>
    is written out as \<open>None\<close> where the code can produce it.
  \<^item> \<open>undefined\<close> as an optional argument is \<open>None\<close>.
  \<^item> A leading underscore of a method name is dropped (\<open>_selectShard\<close> is
    \<open>selectShard\<close>).
\<close>

subsection \<open>Shard selection\<close>

type_synonym url = string
type_synonym path = string

text \<open>\<open>static get FIREBASE_DATABASES_URL()\<close>.\<close>

definition FIREBASE_DATABASES_URL :: "url list" where
  "FIREBASE_DATABASES_URL = [''https://iowa-2016-dev.firebaseio.com/'']"

text \<open>
  \<open>parseInt(s, 16)\<close> as ECMAScript defines it: leading white space is skipped, one sign
  is read, a \<open>0x\<close> or \<open>0X\<close> prefix is dropped, and the longest prefix of hexadecimal
  digits is the value; with no digit the result is \<open>NaN\<close> (\<open>None\<close>).
\<close>

definition isWhiteSpace :: "char \<Rightarrow> bool" where
  "isWhiteSpace c \<longleftrightarrow> (of_char c :: nat) \<in> {9, 10, 11, 12, 13, 32}"

definition hexDigitValue :: "char \<Rightarrow> nat option" where
  "hexDigitValue c =
     (let n = (of_char c :: nat) in
      if 48 \<le> n \<and> n \<le> 57 then Some (n - 48)
      else if 97 \<le> n \<and> n \<le> 102 then Some (n - 87)
      else if 65 \<le> n \<and> n \<le> 70 then Some (n - 55)
      else None)"

fun hexDigits :: "string \<Rightarrow> nat list" where
  "hexDigits [] = []"
| "hexDigits (c # cs) =
     (case hexDigitValue c of None \<Rightarrow> [] | Some d \<Rightarrow> d # hexDigits cs)"

definition hexValue :: "nat list \<Rightarrow> nat" where
  "hexValue ds = foldl (\<lambda>a d. 16 * a + d) 0 ds"

definition stripSign :: "string \<Rightarrow> int \<times> string" where
  "stripSign s =
     (case s of
        [] \<Rightarrow> (1, [])
      | c # cs \<Rightarrow>
          if c = CHR ''-'' then (- 1, cs)
          else if c = CHR ''+'' then (1, cs)
          else (1, s))"

definition stripHexPrefix :: "string \<Rightarrow> string" where
  "stripHexPrefix s =
     (case s of
        c # d # cs \<Rightarrow>
          if c = CHR ''0'' \<and> (d = CHR ''x'' \<or> d = CHR ''X'') then cs else s
      | _ \<Rightarrow> s)"

definition parseInt16 :: "string \<Rightarrow> int option" where
  "parseInt16 s =
     (let (sign, t) = stripSign (dropWhile isWhiteSpace s);
          z = hexDigits (stripHexPrefix t)
      in if z = [] then None else Some (sign * int (hexValue z)))"

text \<open>
  The \<open>%\<close> operator: the remainder takes the sign of the dividend; a \<open>NaN\<close> dividend or
  a zero divisor gives \<open>NaN\<close>.
\<close>

definition jsRemainder :: "int option \<Rightarrow> int \<Rightarrow> int option" where
  "jsRemainder a b =
     (case a of
        None \<Rightarrow> None
      | Some x \<Rightarrow> if b = 0 then None else Some (sgn x * (\<bar>x\<bar> mod \<bar>b\<bar>)))"

text \<open>
  Reading \<open>array[i]\<close>: an index that is \<open>NaN\<close>, negative or past the end reads
  \<open>undefined\<close> (\<open>None\<close>).
\<close>

definition arrayIndex :: "'a list \<Rightarrow> int option \<Rightarrow> 'a option" where
  "arrayIndex xs i =
     (case i of
        None \<Rightarrow> None
      | Some j \<Rightarrow> if 0 \<le> j \<and> j < int (length xs) then Some (xs ! nat j) else None)"

text \<open>
  \<open>static _selectShard(userId)\<close>. The global \<open>crc32\<close> is not part of the file: it is the
  parameter \<open>crc32\<close>, giving the string that \<open>parseInt\<close> reads. The list of shards is a
  parameter as well; the class uses \<open>FIREBASE_DATABASES_URL\<close>.
\<close>

definition selectShard :: "(string \<Rightarrow> string) \<Rightarrow> url list \<Rightarrow> string \<Rightarrow> url option" where
  "selectShard crc32 urls userId =
     (let shardIndex = jsRemainder (parseInt16 (crc32 userId)) (int (length urls))
      in arrayIndex urls shardIndex)"

text \<open>
  What a CRC32 helper that prints hexadecimal returns: the 32-bit checksum as one to eight
  hex digits. A number of that size is exact as a JavaScript number, so reading it as an
  integer loses nothing.
\<close>

definition hexDigest :: "string \<Rightarrow> bool" where
  "hexDigest s \<longleftrightarrow>
     s \<noteq> [] \<and> length s \<le> 8 \<and> list_all (\<lambda>c. hexDigitValue c \<noteq> None) s"


subsection \<open>Values, errors and the calls made on the outside world\<close>

text \<open>
  The JavaScript values that occur: \<open>ServerTimestamp\<close> is the placeholder
  \<open>Firebase.ServerValue.TIMESTAMP\<close>, which the backend replaces by its own time when it
  writes; \<open>JPromise n\<close> is the completion signal the client returns for the call at
  position \<open>n\<close> of the trace.
\<close>

datatype jsval =
    JUndefined
  | JNull
  | JBool bool
  | JNum int
  | JStr string
  | ServerTimestamp
  | JPromise nat
  | JObj "(string \<times> jsval) list"

fun truthy :: "jsval \<Rightarrow> bool" where
  "truthy JUndefined = False"
| "truthy JNull = False"
| "truthy (JBool b) = b"
| "truthy (JNum n) = (n \<noteq> 0)"
| "truthy (JStr s) = (s \<noteq> [])"
| "truthy ServerTimestamp = True"
| "truthy (JPromise n) = True"
| "truthy (JObj kvs) = True"

datatype js_error = TypeError | FirebaseError

datatype 'a outcome = Throws js_error | Returns 'a

datatype child_event = child_added | child_changed | child_removed

text \<open>
  A caller's callback is known by a number. The three arrow functions that
  \<open>_registerToUpdates\<close> attaches are \<open>KeyVal cb\<close>, for
  \<open>dataSnapshot => callback(dataSnapshot.key(), dataSnapshot.val())\<close>, and
  \<open>KeyNull cb\<close>, for \<open>dataSnapshot => callback(dataSnapshot.key(), null)\<close>. Running one
  on a snapshot gives the call of the callback: its number and its two arguments.
\<close>

type_synonym callback = nat

datatype handler = KeyVal callback | KeyNull callback

type_synonym invocation = "callback \<times> string \<times> jsval"

fun runHandler :: "handler \<Rightarrow> string \<Rightarrow> jsval \<Rightarrow> invocation" where
  "runHandler (KeyVal cb) key val = (cb, key, val)"
| "runHandler (KeyNull cb) key val = (cb, key, JNull)"

datatype event =
    ConsoleLog string
  | DebugLog string
  | TrackError string string
  | TrackEvent string string string
  | AddEventListener string
  | GoOffline
  | GoOnline
  | NewFirebase url
  | AuthWithOAuthToken url string string
  | Unauth url
  | Off url path
  | On url path child_event handler
  | Once url path
  | Update url path "(string \<times> jsval) list"
  | SetValue url path jsval
  | OnDisconnectSet url path jsval

text \<open>The calls that reach the Firebase client, as opposed to logging and analytics.\<close>

fun backendCall :: "event \<Rightarrow> bool" where
  "backendCall (ConsoleLog m) = False"
| "backendCall (DebugLog m) = False"
| "backendCall (TrackError m e) = False"
| "backendCall (TrackEvent a b c) = False"
| "backendCall (AddEventListener n) = False"
| "backendCall e = True"

subsection \<open>The state: the object's two fields and the client they talk to\<close>

text \<open>\<open>constructor()\<close> sets \<open>this.firebaseRef = null\<close> and \<open>this.clockOffset = 0\<close>.
  A reference is determined by the URL it was made from.\<close>

record iofirebase =
  firebaseRef :: "url option"
  clockOffset :: int

text \<open>
  The world outside the object: per database URL the client's credentials (the \<open>uid\<close>
  that \<open>getAuth()\<close> reports, if any), the listeners attached with \<open>on\<close>, the stored data
  by location, and the trace of all calls made so far.
\<close>

record world =
  sdkAuth :: "url \<Rightarrow> string option"
  listeners :: "(url \<times> path \<times> child_event \<times> handler) list"
  db :: "url \<times> path \<Rightarrow> jsval option"
  trace :: "event list"

type_synonym state = "iofirebase \<times> world"

definition emit :: "event \<Rightarrow> world \<Rightarrow> world" where
  "emit e w = w\<lparr>trace := trace w @ [e]\<rparr>"

definition debugLog :: "string \<Rightarrow> world \<Rightarrow> world" where
  "debugLog m w = emit (DebugLog m) w"

definition constructor :: "bool \<Rightarrow> world \<Rightarrow> state" where
  "constructor hiddenSupported w =
     (\<lparr>firebaseRef = None, clockOffset = 0\<rparr>,
      if hiddenSupported then emit (AddEventListener ''visibilitychange'') w else w)"

definition goOffline :: "world \<Rightarrow> world" where
  "goOffline w = debugLog ''Firebase went offline.'' (emit GoOffline w)"

definition goOnline :: "world \<Rightarrow> world" where
  "goOnline w = debugLog ''Firebase back online!'' (emit GoOnline w)"

text \<open>The listener of \<open>visibilitychange\<close>:
  \<open>document.hidden ? IOFirebase.goOffline() : IOFirebase.goOnline()\<close>.\<close>

definition visibilitychange :: "bool \<Rightarrow> world \<Rightarrow> world" where
  "visibilitychange hidden w = (if hidden then goOffline w else goOnline w)"

subsection \<open>The client calls the adapter uses\<close>

text \<open>
  \<open>ref.getAuth()\<close> reads the client's local state, synchronously: the credentials as an
  object holding the \<open>uid\<close>, or \<open>null\<close>.
\<close>

definition getAuth :: "world \<Rightarrow> url \<Rightarrow> jsval" where
  "getAuth w u = (case sdkAuth w u of None \<Rightarrow> JNull | Some uid \<Rightarrow> JObj [(''uid'', JStr uid)])"

text \<open>\<open>ref.getAuth().uid\<close>: reading a property of \<open>null\<close> throws a \<open>TypeError\<close>.\<close>

definition getAuthUid :: "world \<Rightarrow> url \<Rightarrow> string outcome" where
  "getAuthUid w u = (case sdkAuth w u of None \<Rightarrow> Throws TypeError | Some uid \<Rightarrow> Returns uid)"

text \<open>The template string \<open>users/${userId}/${attribute}\<close>.\<close>

definition userPath :: "string \<Rightarrow> string \<Rightarrow> path" where
  "userPath userId attribute = ''users/'' @ userId @ ''/'' @ attribute"

text \<open>\<open>ref.off()\<close> with no argument detaches every listener at the location.\<close>

definition sdkOff :: "url \<Rightarrow> path \<Rightarrow> world \<Rightarrow> world" where
  "sdkOff u p w =
     emit (Off u p)
       (w\<lparr>listeners := filter (\<lambda>(u', p', e, h). \<not> (u' = u \<and> p' = p)) (listeners w)\<rparr>)"

definition sdkOn :: "url \<Rightarrow> path \<Rightarrow> child_event \<Rightarrow> handler \<Rightarrow> world \<Rightarrow> world" where
  "sdkOn u p e h w = emit (On u p e h) (w\<lparr>listeners := listeners w @ [(u, p, e, h)]\<rparr>)"

definition sdkUnauth :: "url \<Rightarrow> world \<Rightarrow> world" where
  "sdkUnauth u w = emit (Unauth u) (w\<lparr>sdkAuth := (sdkAuth w)(u := None)\<rparr>)"

text \<open>
  Writing a value at a location replaces what was stored there and below it; writing
  \<open>null\<close> removes it. \<open>ref.set(v)\<close> writes at the location itself; \<open>ref.update(obj)\<close>
  writes each name of \<open>obj\<close> at the location it names below and touches nothing else.
\<close>

definition writeAt :: "url \<Rightarrow> path \<Rightarrow> jsval \<Rightarrow> (url \<times> path \<Rightarrow> jsval option) \<Rightarrow> (url \<times> path \<Rightarrow> jsval option)" where
  "writeAt u p v d =
     (\<lambda>(u', q).
        if u' = u \<and> q = p then (if v = JNull then None else Some v)
        else if u' = u \<and> prefix (p @ ''/'') q then None
        else d (u', q))"

definition childPath :: "path \<Rightarrow> string \<Rightarrow> path" where
  "childPath p k = p @ ''/'' @ k"

definition sdkSet :: "url \<Rightarrow> path \<Rightarrow> jsval \<Rightarrow> world \<Rightarrow> world" where
  "sdkSet u p v w = emit (SetValue u p v) (w\<lparr>db := writeAt u p v (db w)\<rparr>)"

text \<open>
  The names in the object given to \<open>update\<close> are read by the client as paths below the
  location: \<open>/\<close> separates the segments, and a name without a segment (the empty string)
  is the location itself. The client checks the names before it writes anything and
  refuses the call, throwing, when one of them holds one of the characters
  \<open>.\<close>, \<open>#\<close>, \<open>$\<close>, \<open>[\<close>, \<open>]\<close> or an ASCII control character, or is longer than
  768 bytes. The name \<open>.priority\<close>, which the client reads as the priority of the node,
  is outside this model: it is refused like any name with a dot.
\<close>

definition keyCharRefused :: "char \<Rightarrow> bool" where
  "keyCharRefused c \<longleftrightarrow>
     c \<in> set ''.#$[]'' \<or> (of_char c :: nat) < 32 \<or> (of_char c :: nat) = 127"

definition clientRefusesKey :: "string \<Rightarrow> bool" where
  "clientRefusesKey k \<longleftrightarrow> list_ex keyCharRefused k \<or> 768 < length k"

fun splitOn :: "char \<Rightarrow> string \<Rightarrow> string list" where
  "splitOn c [] = [] # []"
| "splitOn c (x # xs) =
     (if x = c then [] # splitOn c xs
      else (case splitOn c xs of [] \<Rightarrow> [x] # [] | t # ts \<Rightarrow> (x # t) # ts))"

definition pathSegments :: "string \<Rightarrow> string list" where
  "pathSegments k = filter (\<lambda>t. t \<noteq> []) (splitOn CHR ''/'' k)"

definition keyLocation :: "path \<Rightarrow> string \<Rightarrow> path" where
  "keyLocation p k = foldl childPath p (pathSegments k)"

text \<open>An accepted \<open>update\<close>: the call is in the trace and each name is written at its
  location, in the order given.\<close>

definition mergeAt :: "url \<Rightarrow> path \<Rightarrow> (string \<times> jsval) list \<Rightarrow> (url \<times> path \<Rightarrow> jsval option) \<Rightarrow> (url \<times> path \<Rightarrow> jsval option)" where
  "mergeAt u p kvs d = foldl (\<lambda>d (k, v). writeAt u (keyLocation p k) v d) d kvs"

definition updated :: "url \<Rightarrow> path \<Rightarrow> (string \<times> jsval) list \<Rightarrow> world \<Rightarrow> world" where
  "updated u p kvs w = emit (Update u p kvs) (w\<lparr>db := mergeAt u p kvs (db w)\<rparr>)"

text \<open>\<open>ref.update(obj, onComplete)\<close>: refused, it throws and nothing is written; accepted,
  it returns the completion signal of the write.\<close>

definition sdkUpdate :: "url \<Rightarrow> path \<Rightarrow> (string \<times> jsval) list \<Rightarrow> world \<Rightarrow> jsval outcome \<times> world" where
  "sdkUpdate u p kvs w =
     (if list_ex (\<lambda>(k, v). clientRefusesKey k) kvs
      then (Throws FirebaseError, emit (Update u p kvs) w)
      else (Returns (JPromise (length (trace w))), updated u p kvs w))"


text \<open>
  What the client does when a child event happens at a location: every listener attached
  there for that event runs, in the order of attachment.
\<close>

definition childEvent :: "url \<Rightarrow> path \<Rightarrow> child_event \<Rightarrow> string \<Rightarrow> jsval \<Rightarrow> world \<Rightarrow> invocation list" where
  "childEvent u p e key val w =
     map (\<lambda>(u', p', e', h). runHandler h key val)
       (filter (\<lambda>(u', p', e', h). u' = u \<and> p' = p \<and> e' = e) (listeners w))"

subsection \<open>The methods\<close>

text \<open>\<open>isAuthed()\<close>: \<open>return this.firebaseRef && this.firebaseRef.getAuth();\<close>. The
  operator \<open>&&\<close> returns its left operand when that is falsy (here \<open>null\<close>) and its right
  operand otherwise.\<close>

definition isAuthed :: "state \<Rightarrow> jsval" where
  "isAuthed s =
     (case firebaseRef (fst s) of
        None \<Rightarrow> JNull
      | Some u \<Rightarrow> getAuth (snd s) u)"

text \<open>\<open>_updateClockOffset()\<close> asks once for the value at \<open>/.info/serverTimeOffset\<close>;
  \<open>clockOffsetCallback\<close> is the function it passes, run by the client when the value
  arrives.\<close>

definition updateClockOffset :: "state \<Rightarrow> state" where
  "updateClockOffset s =
     (case firebaseRef (fst s) of
        None \<Rightarrow> s
      | Some u \<Rightarrow> (fst s, emit (Once u ''/.info/serverTimeOffset'') (snd s)))"

definition clockOffsetCallback :: "int \<Rightarrow> state \<Rightarrow> state" where
  "clockOffsetCallback snapVal s =
     ((fst s)\<lparr>clockOffset := snapVal\<rparr>, debugLog ''Updated clock offset to'' (snd s))"

text \<open>\<open>_setFirebaseUserData(attribute, value)\<close> and
  \<open>_updateFirebaseUserData(attribute, value)\<close>. In the branch taken when \<open>isAuthed()\<close> is
  truthy the reference and the credentials are there; the other cases of the two reads
  are what JavaScript does on \<open>null\<close>. \<open>return ref.update(value, ...)\<close> returns what the
  client returns and lets through what it throws.\<close>

definition setFirebaseUserData :: "string \<Rightarrow> jsval \<Rightarrow> state \<Rightarrow> jsval outcome \<times> state" where
  "setFirebaseUserData attribute v s =
     (if truthy (isAuthed s) then
        (case firebaseRef (fst s) of
           None \<Rightarrow> (Throws TypeError, s)
         | Some u \<Rightarrow>
             (case getAuthUid (snd s) u of
                Throws e \<Rightarrow> (Throws e, s)
              | Returns userId \<Rightarrow>
                  (Returns (JPromise (length (trace (snd s)))),
                   fst s, sdkSet u (userPath userId attribute) v (snd s))))
      else (Returns JUndefined, fst s,
            debugLog ''Trying to write to Firebase while not authorized.'' (snd s)))"

definition updateFirebaseUserData :: "string \<Rightarrow> (string \<times> jsval) list \<Rightarrow> state \<Rightarrow> jsval outcome \<times> state" where
  "updateFirebaseUserData attribute v s =
     (if truthy (isAuthed s) then
        (case firebaseRef (fst s) of
           None \<Rightarrow> (Throws TypeError, s)
         | Some u \<Rightarrow>
             (case getAuthUid (snd s) u of
                Throws e \<Rightarrow> (Throws e, s)
              | Returns userId \<Rightarrow>
                  (case sdkUpdate u (userPath userId attribute) v (snd s) of
                     (r, w') \<Rightarrow> (r, fst s, w'))))
      else (Returns JUndefined, fst s,
            debugLog ''Trying to write to Firebase while not authorized.'' (snd s)))"

text \<open>The completion callback both writes pass to the client: it only logs.\<close>

definition writeCallback :: "bool \<Rightarrow> world \<Rightarrow> world" where
  "writeCallback error w =
     (if error then debugLog ''Error writing to Firebase data'' w
      else debugLog ''Successfully updated Firebase data'' w)"

text \<open>\<open>_bumpLastActivityTimestamp()\<close>.\<close>

definition bumpLastActivityTimestamp :: "state \<Rightarrow> jsval outcome \<times> state" where
  "bumpLastActivityTimestamp s =
     (case firebaseRef (fst s) of
        None \<Rightarrow> (Throws TypeError, s)
      | Some u \<Rightarrow>
          (case getAuthUid (snd s) u of
             Throws e \<Rightarrow> (Throws e, s)
           | Returns userId \<Rightarrow>
               setFirebaseUserData ''last_activity_timestamp'' ServerTimestamp
                 (fst s,
                  emit (OnDisconnectSet u (userPath userId ''last_activity_timestamp'')
                          ServerTimestamp) (snd s))))"

text \<open>\<open>auth(userId, accessToken)\<close>. \<open>new Firebase(undefined)\<close> throws, which is the case
  of \<open>_selectShard\<close> reading past the list. \<open>authCallback\<close> is the function passed to
  \<open>authWithOAuthToken\<close>, with the \<open>firebaseShardUrl\<close> it has captured.\<close>

definition auth :: "(string \<Rightarrow> string) \<Rightarrow> string \<Rightarrow> string \<Rightarrow> state \<Rightarrow> jsval outcome \<times> state" where
  "auth crc32 userId accessToken s =
     (let firebaseShardUrl = selectShard crc32 FIREBASE_DATABASES_URL userId;
          w1 = emit (ConsoleLog ''Chose the following Firebase Database Shard:'') (snd s)
      in case firebaseShardUrl of
           None \<Rightarrow> (Throws FirebaseError, fst s, w1)
         | Some u \<Rightarrow>
             (let this1 = (fst s)\<lparr>firebaseRef := Some u\<rparr>;
                  w2 = emit (NewFirebase u) w1;
                  w3 = emit (AuthWithOAuthToken u ''google'' accessToken) w2
              in (Returns JUndefined, updateClockOffset (this1, w3))))"

definition authCallback :: "url \<Rightarrow> string option \<Rightarrow> state \<Rightarrow> jsval outcome \<times> state" where
  "authCallback firebaseShardUrl error s =
     (case error of
        Some e \<Rightarrow>
          (Returns JUndefined, fst s,
           debugLog ''Login to Firebase Failed!''
             (emit (TrackError ''this.firebaseRef.authWithOAuthToken(...)'' e) (snd s)))
      | None \<Rightarrow>
          (case bumpLastActivityTimestamp s of
             (Throws e, s') \<Rightarrow> (Throws e, s')
           | (Returns r, this', w') \<Rightarrow>
               (Returns JUndefined, this',
                debugLog ''Authenticated successfully to Firebase shard''
                  (emit (TrackEvent ''login'' ''success'' firebaseShardUrl) w'))))"

text \<open>
  The client finishing the exchange started by \<open>authWithOAuthToken\<close> on the reference
  \<open>u\<close>: on success it holds the credentials of \<open>uid\<close> from then on; either way it runs
  the callback.
\<close>

datatype auth_result = AuthOk string | AuthFailed string

definition authCompletes :: "url \<Rightarrow> auth_result \<Rightarrow> state \<Rightarrow> jsval outcome \<times> state" where
  "authCompletes u r s =
     (case r of
        AuthOk uid \<Rightarrow> authCallback u None (fst s, (snd s)\<lparr>sdkAuth := (sdkAuth (snd s))(u \<mapsto> uid)\<rparr>)
      | AuthFailed e \<Rightarrow> authCallback u (Some e) s)"

text \<open>\<open>unAuth()\<close>.\<close>

definition unAuth :: "state \<Rightarrow> jsval outcome \<times> state" where
  "unAuth s =
     (case firebaseRef (fst s) of
        None \<Rightarrow> (Returns JUndefined, s)
      | Some u \<Rightarrow>
          (case getAuthUid (snd s) u of
             Throws e \<Rightarrow> (Throws e, s)
           | Returns userId \<Rightarrow>
               (let w1 = sdkOff u (userPath userId ''my_sessions'') (snd s);
                    w2 = sdkOff u (userPath userId ''feedback'') w1;
                    w3 = sdkUnauth u w2;
                    w4 = debugLog ''Unauthorized Firebase'' w3
                in (Returns JUndefined, (fst s)\<lparr>firebaseRef := None\<rparr>, w4))))"

text \<open>\<open>_registerToUpdates(attribute, callback)\<close> and its two public forms.\<close>

definition registerToUpdates :: "string \<Rightarrow> callback \<Rightarrow> state \<Rightarrow> jsval outcome \<times> state" where
  "registerToUpdates attribute cb s =
     (if truthy (isAuthed s) then
        (case firebaseRef (fst s) of
           None \<Rightarrow> (Throws TypeError, s)
         | Some u \<Rightarrow>
             (case getAuthUid (snd s) u of
                Throws e \<Rightarrow> (Throws e, s)
              | Returns userId \<Rightarrow>
                  (let p = userPath userId attribute;
                       w1 = sdkOn u p child_added (KeyVal cb) (snd s);
                       w2 = sdkOn u p child_changed (KeyVal cb) w1;
                       w3 = sdkOn u p child_removed (KeyNull cb) w2
                   in (Returns JUndefined, fst s, w3))))
      else (Returns JUndefined, fst s,
            debugLog ''Trying to subscribe to Firebase while not authorized.'' (snd s)))"

definition registerToSessionUpdates :: "callback \<Rightarrow> state \<Rightarrow> jsval outcome \<times> state" where
  "registerToSessionUpdates cb s = registerToUpdates ''my_sessions'' cb s"

definition registerToFeedbackUpdates :: "callback \<Rightarrow> state \<Rightarrow> jsval outcome \<times> state" where
  "registerToFeedbackUpdates cb s = registerToUpdates ''feedback'' cb s"

text \<open>
  The expression \<open>timestamp ? timestamp + this.clockOffset : Firebase.ServerValue.TIMESTAMP\<close>,
  written out in each of the three methods that take a timestamp. The test is JavaScript
  truthiness: \<open>undefined\<close> and the number \<open>0\<close> are falsy.
\<close>

definition resolveTimestamp :: "int option \<Rightarrow> int \<Rightarrow> jsval" where
  "resolveTimestamp timestamp offset =
     (case timestamp of
        None \<Rightarrow> ServerTimestamp
      | Some t \<Rightarrow> if truthy (JNum t) then JNum (t + offset) else ServerTimestamp)"

definition toggleSession :: "string \<Rightarrow> bool \<Rightarrow> int option \<Rightarrow> state \<Rightarrow> jsval outcome \<times> state" where
  "toggleSession sessionUUID bookmarked timestamp s =
     (let v = [(sessionUUID,
                JObj [(''timestamp'', resolveTimestamp timestamp (clockOffset (fst s))),
                      (''bookmarked'', JBool bookmarked)])]
      in updateFirebaseUserData ''my_sessions'' v s)"

definition markSessionRated :: "string \<Rightarrow> int option \<Rightarrow> state \<Rightarrow> jsval outcome \<times> state" where
  "markSessionRated sessionUUID timestamp s =
     (let v = [(sessionUUID,
                JObj [(''timestamp'', resolveTimestamp timestamp (clockOffset (fst s)))])]
      in updateFirebaseUserData ''feedback'' v s)"

definition markVideoAsViewed :: "string \<Rightarrow> int option \<Rightarrow> state \<Rightarrow> jsval outcome \<times> state" where
  "markVideoAsViewed videoId timestamp s =
     (let v = [(videoId, resolveTimestamp timestamp (clockOffset (fst s)))]
      in updateFirebaseUserData ''viewed_videos'' v s)"

definition addGcmId :: "string \<Rightarrow> state \<Rightarrow> jsval outcome \<times> state" where
  "addGcmId gcmId s =
     (let v = [(gcmId, JBool True)]
      in updateFirebaseUserData ''gcm_ids'' v s)"

text \<open>A client with no credentials, no listener, no data and an empty trace.\<close>

definition emptyWorld :: world where
  "emptyWorld = \<lparr>sdkAuth = (\<lambda>u. None), listeners = [], db = (\<lambda>l. None), trace = []\<rparr>"

subsection \<open>Reading the trace, and a signed-in state to compute with\<close>

text \<open>The request that \<open>_updateClockOffset\<close> makes, as it shows in the trace.\<close>

definition readsServerTimeOffset :: "event \<Rightarrow> bool" where
  "readsServerTimeOffset e =
     (case e of Once u p \<Rightarrow> p = ''/.info/serverTimeOffset'' | _ \<Rightarrow> False)"

text \<open>
  A user signed in on the one configured shard: the reference is stored, the client holds
  the credentials of \<open>user-1\<close>, and one session, \<open>xyz\<close>, is already bookmarked.
\<close>

definition devUrl :: url where
  "devUrl = ''https://iowa-2016-dev.firebaseio.com/''"

definition signedInWorld :: world where
  "signedInWorld =
     \<lparr>sdkAuth = (\<lambda>u. if u = devUrl then Some ''user-1'' else None),
      listeners = [],
      db = (\<lambda>l. if l = (devUrl, ''users/user-1/my_sessions/xyz'')
                 then Some (JObj [(''timestamp'', JNum 7), (''bookmarked'', JBool True)])
                 else None),
      trace = []\<rparr>"

definition signedIn :: "int \<Rightarrow> state" where
  "signedIn offset = (\<lparr>firebaseRef = Some devUrl, clockOffset = offset\<rparr>, signedInWorld)"

text \<open>The object as constructed at page load, before any call, over an empty client.\<close>

definition signedOut :: state where
  "signedOut = constructor True emptyWorld"

section \<open>Properties\<close>

subsection \<open>Shard selection stays inside the list\<close>

lemma hexDigits_nonempty:
  "hexDigitValue c \<noteq> None \<Longrightarrow> hexDigits (c # cs) \<noteq> []"
  by (auto split: option.splits)

lemma hex_not_space: "hexDigitValue c \<noteq> None \<Longrightarrow> \<not> isWhiteSpace c"
  by (auto simp: hexDigitValue_def isWhiteSpace_def Let_def split: if_splits)

lemma hex_not_sign: "hexDigitValue c \<noteq> None \<Longrightarrow> c \<noteq> CHR ''-'' \<and> c \<noteq> CHR ''+''"
  by (auto simp: hexDigitValue_def Let_def split: if_splits)

lemma hex_not_x: "hexDigitValue c \<noteq> None \<Longrightarrow> c \<noteq> CHR ''x'' \<and> c \<noteq> CHR ''X''"
  by (auto simp: hexDigitValue_def Let_def split: if_splits)

lemma parseInt16_hexDigest:
  assumes "hexDigest s"
  shows "parseInt16 s = Some (int (hexValue (hexDigits s)))"
proof -
  from assms obtain c cs where s: "s = c # cs" and c: "hexDigitValue c \<noteq> None"
    and cs: "list_all (\<lambda>c. hexDigitValue c \<noteq> None) cs"
    by (cases s) (auto simp: hexDigest_def)
  have 1: "dropWhile isWhiteSpace s = s" using s c hex_not_space by simp
  have 2: "stripSign s = (1, s)" using s c hex_not_sign by (simp add: stripSign_def)
  have 3: "stripHexPrefix s = s"
  proof (cases cs)
    case Nil then show ?thesis using s by (simp add: stripHexPrefix_def)
  next
    case (Cons d ds)
    with cs have "hexDigitValue d \<noteq> None" by simp
    then show ?thesis using s Cons hex_not_x by (simp add: stripHexPrefix_def)
  qed
  have 4: "hexDigits s \<noteq> []" using s c hexDigits_nonempty by simp
  show ?thesis using 1 2 3 4 by (simp add: parseInt16_def)
qed

lemma jsRemainder_nonneg:
  "0 \<le> x \<Longrightarrow> 0 < n \<Longrightarrow> \<exists>j. jsRemainder (Some x) n = Some j \<and> 0 \<le> j \<and> j < n"
  by (cases "x = 0") (auto simp: jsRemainder_def)

lemma arrayIndex_in_range:
  "0 \<le> j \<Longrightarrow> j < int (length xs) \<Longrightarrow> \<exists>x. arrayIndex xs (Some j) = Some x \<and> x \<in> set xs"
  by (simp add: arrayIndex_def)

lemma selectShard_in_list:
  assumes "urls \<noteq> []" and "hexDigest (crc32 userId)"
  shows "\<exists>u. selectShard crc32 urls userId = Some u \<and> u \<in> set urls"
proof -
  let ?h = "int (hexValue (hexDigits (crc32 userId)))"
  have p: "parseInt16 (crc32 userId) = Some ?h"
    using assms(2) by (rule parseInt16_hexDigest)
  have n: "0 < int (length urls)" using assms(1) by simp
  obtain j where j: "jsRemainder (Some ?h) (int (length urls)) = Some j"
    and r: "0 \<le> j" "j < int (length urls)"
    using jsRemainder_nonneg [OF _ n, of ?h] by auto
  show ?thesis
    using arrayIndex_in_range [OF r] p j by (simp add: selectShard_def)
qed

text \<open>
  C2. For every user ID and every list of shard URLs with at least one element,
  \<open>_selectShard\<close> returns an element of the list: the index it computes is never out of
  range and no case reads \<open>undefined\<close>. The \<open>crc32\<close> helper is taken to print the
  checksum as hexadecimal digits, which is what \<open>parseInt(..., 16)\<close> is given to read.
  Being a function of its arguments, the result is the same at every call.
\<close>

theorem selectShard_member:
  assumes "urls \<noteq> []" and "hexDigest (crc32 userId)"
  shows "\<exists>u. selectShard crc32 urls userId = Some u \<and> u \<in> set urls"
  using assms by (rule selectShard_in_list)

theorem selectShard_member_witness:
  "[''a'', ''b'', ''c''] \<noteq> [] \<and> hexDigest ''1f'' \<and>
   (\<exists>u. selectShard (\<lambda>s. ''1f'') [''a'', ''b'', ''c''] ''user-1'' = Some u
        \<and> u \<in> set [''a'', ''b'', ''c''])"
proof -
  have a: "[''a'', ''b'', ''c''] \<noteq> []" by simp
  have b: "hexDigest ''1f''" by code_simp
  show ?thesis
    by (rule conjI [OF a conjI [OF b
          selectShard_member [of "[''a'', ''b'', ''c'']" "\<lambda>s. ''1f''" "''user-1''", OF a b]]])
qed

text \<open>The same at concrete inputs, and what happens when the helper prints something
  else: a negative number leaves the list, and text without a digit is \<open>NaN\<close>.\<close>

lemma selectShard_example:
  "selectShard (\<lambda>s. ''1f'') [''a'', ''b'', ''c''] ''user-1'' = Some ''b''"
  by code_simp

lemma selectShard_negative:
  "selectShard (\<lambda>s. ''-5'') [''a'', ''b'', ''c''] ''user-1'' = None"
  by code_simp

lemma selectShard_not_a_number:
  "selectShard (\<lambda>s. ''zz'') FIREBASE_DATABASES_URL ''user-1'' = None"
  by code_simp

subsection \<open>What each client call does to the world\<close>

lemma trace_debugLog [simp]: "trace (debugLog m w) = trace w @ [DebugLog m]"
  by (simp add: debugLog_def emit_def)

lemma sdkAuth_debugLog [simp]: "sdkAuth (debugLog m w) = sdkAuth w"
  by (simp add: debugLog_def emit_def)

lemma listeners_debugLog [simp]: "listeners (debugLog m w) = listeners w"
  by (simp add: debugLog_def emit_def)

lemma debugLog_only_trace:
  "trace (debugLog m w) = trace w @ [DebugLog m] \<and> db (debugLog m w) = db w
   \<and> listeners (debugLog m w) = listeners w \<and> sdkAuth (debugLog m w) = sdkAuth w"
  by (simp add: debugLog_def emit_def)

lemma trace_sdkOff [simp]: "trace (sdkOff u p w) = trace w @ [Off u p]"
  by (simp add: sdkOff_def emit_def)

lemma sdkAuth_sdkOff [simp]: "sdkAuth (sdkOff u p w) = sdkAuth w"
  by (simp add: sdkOff_def emit_def)

lemma listeners_sdkOff [simp]:
  "listeners (sdkOff u p w) = filter (\<lambda>(u', p', e, h). \<not> (u' = u \<and> p' = p)) (listeners w)"
  by (simp add: sdkOff_def emit_def)

lemma trace_sdkUnauth [simp]: "trace (sdkUnauth u w) = trace w @ [Unauth u]"
  by (simp add: sdkUnauth_def emit_def)

lemma sdkAuth_sdkUnauth [simp]: "sdkAuth (sdkUnauth u w) = (sdkAuth w)(u := None)"
  by (simp add: sdkUnauth_def emit_def)

lemma listeners_sdkUnauth [simp]: "listeners (sdkUnauth u w) = listeners w"
  by (simp add: sdkUnauth_def emit_def)

lemma trace_sdkOn [simp]: "trace (sdkOn u p e h w) = trace w @ [On u p e h]"
  by (simp add: sdkOn_def emit_def)

lemma listeners_sdkOn [simp]: "listeners (sdkOn u p e h w) = listeners w @ [(u, p, e, h)]"
  by (simp add: sdkOn_def emit_def)

lemma sdkAuth_sdkOn [simp]: "sdkAuth (sdkOn u p e h w) = sdkAuth w"
  by (simp add: sdkOn_def emit_def)

lemma trace_updated [simp]: "trace (updated u p kvs w) = trace w @ [Update u p kvs]"
  by (simp add: updated_def emit_def)

lemma listeners_updated [simp]: "listeners (updated u p kvs w) = listeners w"
  by (simp add: updated_def emit_def)

lemma sdkAuth_updated [simp]: "sdkAuth (updated u p kvs w) = sdkAuth w"
  by (simp add: updated_def emit_def)

lemma splitOn_no_separator: "c \<notin> set k \<Longrightarrow> splitOn c k = [k]"
  by (induction k) auto

lemma keyLocation_segment:
  "k \<noteq> [] \<Longrightarrow> CHR ''/'' \<notin> set k \<Longrightarrow> keyLocation p k = childPath p k"
  by (simp add: keyLocation_def pathSegments_def splitOn_no_separator)

lemma keyLocation_empty: "keyLocation p [] = p"
  by (simp add: keyLocation_def pathSegments_def)

lemma db_updated_single:
  "k \<noteq> [] \<Longrightarrow> CHR ''/'' \<notin> set k \<Longrightarrow>
   db (updated u p [(k, v)] w) = writeAt u (childPath p k) v (db w)"
  by (simp add: updated_def mergeAt_def emit_def keyLocation_segment)

lemma sdkUpdate_accepted:
  "\<not> clientRefusesKey k \<Longrightarrow>
   sdkUpdate u p [(k, v)] w = (Returns (JPromise (length (trace w))), updated u p [(k, v)] w)"
  by (simp add: sdkUpdate_def)

lemma sdkUpdate_refused:
  "clientRefusesKey k \<Longrightarrow>
   sdkUpdate u p [(k, v)] w = (Throws FirebaseError, emit (Update u p [(k, v)]) w)"
  by (simp add: sdkUpdate_def)


lemma abc_accepted: "\<not> clientRefusesKey ''abc''"
  by code_simp

lemma vid1_accepted: "\<not> clientRefusesKey ''vid1''"
  by code_simp

subsection \<open>The authentication query\<close>

text \<open>
  \<open>isAuthed()\<close> is truthy exactly when a reference is stored and the client holds
  credentials for it. The value itself is \<open>null\<close> or the credentials object, never
  \<open>true\<close> or \<open>false\<close>.
\<close>

lemma isAuthed_truthy_iff:
  "truthy (isAuthed s) \<longleftrightarrow> (\<exists>u uid. firebaseRef (fst s) = Some u \<and> sdkAuth (snd s) u = Some uid)"
  by (auto simp: isAuthed_def getAuth_def split: option.splits)

lemma isAuthed_never_boolean: "isAuthed s \<noteq> JBool b"
  by (auto simp: isAuthed_def getAuth_def split: option.splits)

lemma signedIn_authed: "truthy (isAuthed (signedIn offset))"
  by (simp add: isAuthed_def getAuth_def signedIn_def signedInWorld_def)

lemma signedOut_unauthed: "\<not> truthy (isAuthed signedOut)"
  by (simp add: signedOut_def isAuthed_def constructor_def)

text \<open>
  C3. The claim is that \<open>isAuthed()\<close> returns a boolean: \<open>false\<close> before any
  \<open>auth\<close> call and \<open>true\<close> once signed in. On a freshly constructed object the method
  returns \<open>null\<close>, and on a signed-in one it returns the credentials object that
  \<open>getAuth()\<close> gave; neither is a boolean.
\<close>

theorem isAuthed_returns_null_or_credentials:
  "isAuthed signedOut = JNull \<and> isAuthed signedOut \<noteq> JBool False \<and>
   isAuthed (signedIn 50) = JObj [(''uid'', JStr ''user-1'')] \<and>
   isAuthed (signedIn 50) \<noteq> JBool True"
  by (simp add: isAuthed_def getAuth_def signedOut_def constructor_def signedIn_def
      signedInWorld_def)

text \<open>Read as a condition, the value is as the claim says: falsy before \<open>auth\<close>, truthy
  once the client has finished a successful exchange, falsy after \<open>unAuth\<close>.\<close>

lemma isAuthed_before_auth: "\<not> truthy (isAuthed (constructor hiddenSupported w))"
  by (simp add: isAuthed_def constructor_def)

lemma setFirebaseUserData_keeps_auth:
  "fst (snd (setFirebaseUserData attribute v s)) = fst s \<and>
   sdkAuth (snd (snd (setFirebaseUserData attribute v s))) = sdkAuth (snd s)"
  by (auto simp: setFirebaseUserData_def sdkSet_def emit_def debugLog_def
      split: option.splits outcome.splits)

lemma isAuthed_after_successful_auth:
  assumes "firebaseRef (fst s) = Some u"
  shows "fst (authCompletes u (AuthOk uid) s) = Returns JUndefined \<and>
         truthy (isAuthed (snd (authCompletes u (AuthOk uid) s)))"
proof -
  let ?s = "(fst s, (snd s)\<lparr>sdkAuth := (sdkAuth (snd s))(u \<mapsto> uid)\<rparr>)"
  let ?s' = "(fst s, emit (OnDisconnectSet u (userPath uid ''last_activity_timestamp'') ServerTimestamp) (snd ?s))"
  have a: "truthy (isAuthed ?s')" using assms by (simp add: isAuthed_def getAuth_def emit_def)
  obtain r t w where x: "setFirebaseUserData ''last_activity_timestamp'' ServerTimestamp ?s' = (r, t, w)"
    by (cases "setFirebaseUserData ''last_activity_timestamp'' ServerTimestamp ?s'") auto
  from setFirebaseUserData_keeps_auth [of "''last_activity_timestamp''" ServerTimestamp ?s'] x
  have t: "t = fst s" and w: "sdkAuth w = (sdkAuth (snd s))(u \<mapsto> uid)" by (simp_all add: emit_def)
  have r: "r = Returns (JPromise (length (trace (snd ?s'))))"
    using x a assms by (simp add: setFirebaseUserData_def getAuthUid_def emit_def)
  have b: "bumpLastActivityTimestamp ?s = (r, t, w)"
    using assms x by (simp add: bumpLastActivityTimestamp_def getAuthUid_def)
  show ?thesis
    using b r t w assms
    by (simp add: authCompletes_def authCallback_def isAuthed_def getAuth_def debugLog_def emit_def)
qed

lemma isAuthed_after_unAuth:
  assumes "fst (unAuth s) = Returns r"
  shows "isAuthed (snd (unAuth s)) = JNull"
  using assms
  by (auto simp: unAuth_def isAuthed_def Let_def split: option.splits outcome.splits)

subsection \<open>Signing out\<close>

text \<open>
  C4. \<open>unAuth()\<close> called with no stored reference does nothing: it returns normally and
  the object and the world (trace included) are as they were.
\<close>

theorem unAuth_without_reference:
  "firebaseRef (fst s) = None \<Longrightarrow> unAuth s = (Returns JUndefined, s)"
  by (simp add: unAuth_def)

theorem unAuth_without_reference_witness:
  "firebaseRef (fst signedOut) = None \<and> unAuth signedOut = (Returns JUndefined, signedOut)"
proof -
  have a: "firebaseRef (fst signedOut) = None" by (simp add: signedOut_def constructor_def)
  show ?thesis by (rule conjI [OF a unAuth_without_reference [OF a]])
qed

text \<open>With a stored reference that holds no credentials (the exchange failed or has not
  finished), \<open>getAuth()\<close> is \<open>null\<close> and reading its \<open>uid\<close> throws.\<close>

lemma unAuth_reference_without_credentials:
  assumes "firebaseRef (fst s) = Some u" and "sdkAuth (snd s) u = None"
  shows "unAuth s = (Throws TypeError, s)"
  using assms by (simp add: unAuth_def getAuthUid_def)

lemma unAuth_authed:
  assumes "firebaseRef (fst s) = Some u" and "sdkAuth (snd s) u = Some uid"
  shows "unAuth s =
           (Returns JUndefined, (fst s)\<lparr>firebaseRef := None\<rparr>,
            debugLog ''Unauthorized Firebase''
              (sdkUnauth u
                 (sdkOff u (userPath uid ''feedback'')
                    (sdkOff u (userPath uid ''my_sessions'') (snd s)))))"
  using assms by (simp add: unAuth_def getAuthUid_def Let_def)

text \<open>
  C5. \<open>unAuth()\<close> on a signed-in object makes its calls in this order, all on the stored
  reference: \<open>off()\<close> at the user's \<open>my_sessions\<close>, \<open>off()\<close> at the user's \<open>feedback\<close>,
  then \<open>unauth()\<close>, then the log line. Afterwards no listener is left at either location,
  the client holds no credentials, and the stored reference is cleared; the clock offset
  is kept.
\<close>

theorem unAuth_detaches_then_revokes:
  assumes "truthy (isAuthed s)"
  shows "\<exists>u uid this' w'.
           firebaseRef (fst s) = Some u \<and> sdkAuth (snd s) u = Some uid \<and>
           unAuth s = (Returns JUndefined, this', w') \<and>
           trace w' = trace (snd s) @
             [Off u (userPath uid ''my_sessions''), Off u (userPath uid ''feedback''),
              Unauth u, DebugLog ''Unauthorized Firebase''] \<and>
           childEvent u (userPath uid ''my_sessions'') e key val w' = [] \<and>
           childEvent u (userPath uid ''feedback'') e key val w' = [] \<and>
           sdkAuth w' u = None \<and>
           firebaseRef this' = None \<and> clockOffset this' = clockOffset (fst s)"
proof -
  from assms obtain u uid where r: "firebaseRef (fst s) = Some u" and a: "sdkAuth (snd s) u = Some uid"
    by (auto simp: isAuthed_truthy_iff)
  have "childEvent u (userPath uid ''my_sessions'') e key val
          (debugLog ''Unauthorized Firebase''
              (sdkUnauth u
                 (sdkOff u (userPath uid ''feedback'')
                    (sdkOff u (userPath uid ''my_sessions'') (snd s))))) = []"
    by (auto simp: childEvent_def filter_empty_conv)
  moreover have "childEvent u (userPath uid ''feedback'') e key val
          (debugLog ''Unauthorized Firebase''
              (sdkUnauth u
                 (sdkOff u (userPath uid ''feedback'')
                    (sdkOff u (userPath uid ''my_sessions'') (snd s))))) = []"
    by (auto simp: childEvent_def filter_empty_conv)
  ultimately show ?thesis
    using r a unAuth_authed [OF r a] by simp
qed

theorem unAuth_detaches_then_revokes_witness:
  "truthy (isAuthed (signedIn 50)) \<and>
   (\<exists>u uid this' w'.
           firebaseRef (fst (signedIn 50)) = Some u \<and> sdkAuth (snd (signedIn 50)) u = Some uid \<and>
           unAuth (signedIn 50) = (Returns JUndefined, this', w') \<and>
           trace w' = trace (snd (signedIn 50)) @
             [Off u (userPath uid ''my_sessions''), Off u (userPath uid ''feedback''),
              Unauth u, DebugLog ''Unauthorized Firebase''] \<and>
           childEvent u (userPath uid ''my_sessions'') child_removed ''xyz'' JNull w' = [] \<and>
           childEvent u (userPath uid ''feedback'') child_removed ''xyz'' JNull w' = [] \<and>
           sdkAuth w' u = None \<and>
           firebaseRef this' = None \<and> clockOffset this' = clockOffset (fst (signedIn 50)))"
proof -
  have a: "truthy (isAuthed (signedIn 50))" by (rule signedIn_authed)
  show ?thesis
    by (rule conjI [OF a
          unAuth_detaches_then_revokes [OF a, of child_removed "''xyz''" JNull]])
qed

lemma unAuth_example:
  "unAuth (signedIn 50) = (Returns JUndefined, \<lparr>firebaseRef = None, clockOffset = 50\<rparr>,
     signedInWorld\<lparr>sdkAuth := (sdkAuth signedInWorld)(devUrl := None),
        trace := [Off devUrl ''users/user-1/my_sessions'', Off devUrl ''users/user-1/feedback'',
              Unauth devUrl, DebugLog ''Unauthorized Firebase'']\<rparr>)"
  by (simp add: unAuth_authed [of _ devUrl "''user-1''"] signedIn_def signedInWorld_def userPath_def
       debugLog_def sdkUnauth_def sdkOff_def emit_def)

subsection \<open>Writes: what is sent and what it changes\<close>

lemma updateFirebaseUserData_authed:
  assumes "firebaseRef (fst s) = Some u" and "sdkAuth (snd s) u = Some uid"
    and "\<not> clientRefusesKey k"
  shows "updateFirebaseUserData attribute [(k, v)] s =
           (Returns (JPromise (length (trace (snd s)))), fst s,
            updated u (userPath uid attribute) [(k, v)] (snd s))"
  using assms
  by (simp add: updateFirebaseUserData_def isAuthed_def getAuth_def getAuthUid_def
      sdkUpdate_accepted)

lemma updateFirebaseUserData_refused:
  assumes "firebaseRef (fst s) = Some u" and "sdkAuth (snd s) u = Some uid"
    and "clientRefusesKey k"
  shows "updateFirebaseUserData attribute [(k, v)] s =
           (Throws FirebaseError, fst s,
            emit (Update u (userPath uid attribute) [(k, v)]) (snd s))"
  using assms
  by (simp add: updateFirebaseUserData_def isAuthed_def getAuth_def getAuthUid_def
      sdkUpdate_refused)

lemma updateFirebaseUserData_authed_trace:
  assumes "firebaseRef (fst s) = Some u" and "sdkAuth (snd s) u = Some uid"
  shows "trace (snd (snd (updateFirebaseUserData attribute v s))) =
           trace (snd s) @ [Update u (userPath uid attribute) v]"
  using assms
  by (simp add: updateFirebaseUserData_def isAuthed_def getAuth_def getAuthUid_def
      sdkUpdate_def emit_def)

lemma updateFirebaseUserData_unauthed:
  assumes "\<not> truthy (isAuthed s)"
  shows "updateFirebaseUserData attribute v s =
           (Returns JUndefined, fst s,
            debugLog ''Trying to write to Firebase while not authorized.'' (snd s))"
  using assms by (simp add: updateFirebaseUserData_def)

lemma resolveTimestamp_supplied: "t \<noteq> 0 \<Longrightarrow> resolveTimestamp (Some t) offset = JNum (t + offset)"
  by (simp add: resolveTimestamp_def)

lemma resolveTimestamp_omitted: "resolveTimestamp None offset = ServerTimestamp"
  by (simp add: resolveTimestamp_def)

lemma resolveTimestamp_zero: "resolveTimestamp (Some 0) offset = ServerTimestamp"
  by (simp add: resolveTimestamp_def)

text \<open>
  For a timestamp other than \<open>0\<close> the three methods send \<open>timestamp + clockOffset\<close>;
  with no timestamp they send the server-value placeholder. The call is in the trace
  whether or not the client accepts the key.
\<close>

lemma mutation_timestamp_supplied:
  assumes "firebaseRef (fst s) = Some u" and "sdkAuth (snd s) u = Some uid" and "t \<noteq> 0"
  shows "trace (snd (snd (toggleSession sessionUUID bookmarked (Some t) s))) = trace (snd s) @
           [Update u (userPath uid ''my_sessions'')
              [(sessionUUID, JObj [(''timestamp'', JNum (t + clockOffset (fst s))),
                                   (''bookmarked'', JBool bookmarked)])]]"
    and "trace (snd (snd (markSessionRated sessionUUID (Some t) s))) = trace (snd s) @
           [Update u (userPath uid ''feedback'')
              [(sessionUUID, JObj [(''timestamp'', JNum (t + clockOffset (fst s)))])]]"
    and "trace (snd (snd (markVideoAsViewed videoId (Some t) s))) = trace (snd s) @
           [Update u (userPath uid ''viewed_videos'') [(videoId, JNum (t + clockOffset (fst s)))]]"
  using assms(3)
  by (simp_all add: toggleSession_def markSessionRated_def markVideoAsViewed_def
      resolveTimestamp_def updateFirebaseUserData_authed_trace [OF assms(1,2)])

lemma mutation_timestamp_omitted:
  assumes "firebaseRef (fst s) = Some u" and "sdkAuth (snd s) u = Some uid"
  shows "trace (snd (snd (toggleSession sessionUUID bookmarked None s))) = trace (snd s) @
           [Update u (userPath uid ''my_sessions'')
              [(sessionUUID, JObj [(''timestamp'', ServerTimestamp),
                                   (''bookmarked'', JBool bookmarked)])]]"
    and "trace (snd (snd (markSessionRated sessionUUID None s))) = trace (snd s) @
           [Update u (userPath uid ''feedback'')
              [(sessionUUID, JObj [(''timestamp'', ServerTimestamp)])]]"
    and "trace (snd (snd (markVideoAsViewed videoId None s))) = trace (snd s) @
           [Update u (userPath uid ''viewed_videos'') [(videoId, ServerTimestamp)]]"
  by (simp_all add: toggleSession_def markSessionRated_def markVideoAsViewed_def
      resolveTimestamp_def updateFirebaseUserData_authed_trace [OF assms])

text \<open>
  C1. The claim is that a supplied timestamp \<open>t\<close> is always written as \<open>t + o\<close>. The
  methods test the argument for truthiness, so the supplied timestamp \<open>0\<close> is taken for
  a missing one: with offset \<open>50\<close> each of the three methods sends the server-value
  placeholder where the claim has the number \<open>50\<close>.
\<close>

theorem timestamp_zero_is_dropped:
  "trace (snd (snd (toggleSession ''abc'' True (Some 0) (signedIn 50)))) =
     [Update devUrl ''users/user-1/my_sessions''
        [(''abc'', JObj [(''timestamp'', ServerTimestamp), (''bookmarked'', JBool True)])]]
   \<and> trace (snd (snd (markSessionRated ''abc'' (Some 0) (signedIn 50)))) =
     [Update devUrl ''users/user-1/feedback'' [(''abc'', JObj [(''timestamp'', ServerTimestamp)])]]
   \<and> trace (snd (snd (markVideoAsViewed ''vid1'' (Some 0) (signedIn 50)))) =
     [Update devUrl ''users/user-1/viewed_videos'' [(''vid1'', ServerTimestamp)]]
   \<and> ServerTimestamp \<noteq> JNum (0 + 50)"
  by (simp add: toggleSession_def markSessionRated_def markVideoAsViewed_def resolveTimestamp_def
      updateFirebaseUserData_authed_trace [of _ devUrl "''user-1''"] signedIn_def
      signedInWorld_def userPath_def)

text \<open>Locations: a key is one segment of a path, so a write at one key is neither at nor
  below a location under another key.\<close>

lemma childPath_inj: "childPath p k = childPath p k' \<longleftrightarrow> k = k'"
  by (simp add: childPath_def)

lemma childPath_not_below:
  assumes "CHR ''/'' \<notin> set k"
  shows "\<not> prefix (childPath p k' @ ''/'') (childPath p k)"
proof
  assume "prefix (childPath p k' @ ''/'') (childPath p k)"
  then have "prefix (k' @ ''/'') k" by (simp add: childPath_def)
  then obtain r where "k = k' @ ''/'' @ r" by (auto simp: prefix_def)
  then have "CHR ''/'' \<in> set k" by simp
  with assms show False by simp
qed

lemma writeAt_other_key:
  assumes "k \<noteq> k'" and "CHR ''/'' \<notin> set k"
  shows "writeAt u (childPath p k') v d (u', childPath p k) = d (u', childPath p k)"
  using assms childPath_not_below [OF assms(2), of p k']
  by (simp add: writeAt_def childPath_inj)

lemma writeAt_same: "writeAt u p v d (u, p) = (if v = JNull then None else Some v)"
  by (simp add: writeAt_def)

text \<open>
  C6. On a signed-in object with clock offset \<open>50\<close>, \<open>toggleSession("abc", true, 1000)\<close>
  makes one call, \<open>update\<close> at the user's \<open>my_sessions\<close> with
  \<open>{abc: {timestamp: 1050, bookmarked: true}}\<close>; it makes no \<open>set\<close>. The entry \<open>abc\<close>
  then holds that value, and the entry under every other key is what it was.
\<close>

theorem toggleSession_merge_write:
  assumes "truthy (isAuthed s)" and "clockOffset (fst s) = 50"
  shows "\<exists>u uid w'.
           firebaseRef (fst s) = Some u \<and> sdkAuth (snd s) u = Some uid \<and>
           toggleSession ''abc'' True (Some 1000) s =
             (Returns (JPromise (length (trace (snd s)))), fst s, w') \<and>
           trace w' = trace (snd s) @
             [Update u (userPath uid ''my_sessions'')
                [(''abc'', JObj [(''timestamp'', JNum 1050), (''bookmarked'', JBool True)])]] \<and>
           db w' (u, childPath (userPath uid ''my_sessions'') ''abc'') =
             Some (JObj [(''timestamp'', JNum 1050), (''bookmarked'', JBool True)]) \<and>
           (\<forall>k. k \<noteq> ''abc'' \<and> CHR ''/'' \<notin> set k \<longrightarrow>
                db w' (u, childPath (userPath uid ''my_sessions'') k) =
                db (snd s) (u, childPath (userPath uid ''my_sessions'') k))"
proof -
  from assms(1) obtain u uid where r: "firebaseRef (fst s) = Some u" and a: "sdkAuth (snd s) u = Some uid"
    by (auto simp: isAuthed_truthy_iff)
  let ?v = "JObj [(''timestamp'', JNum 1050), (''bookmarked'', JBool True)]"
  let ?p = "userPath uid ''my_sessions''"
  let ?w = "updated u ?p [(''abc'', ?v)] (snd s)"
  have t: "toggleSession ''abc'' True (Some 1000) s =
             (Returns (JPromise (length (trace (snd s)))), fst s, ?w)"
    using assms(2)
    by (simp add: toggleSession_def resolveTimestamp_def
        updateFirebaseUserData_authed [OF r a abc_accepted])
  have d1: "db ?w (u, childPath ?p ''abc'') = Some ?v"
    by (simp add: db_updated_single writeAt_same)
  have d2: "\<forall>k. k \<noteq> ''abc'' \<and> CHR ''/'' \<notin> set k \<longrightarrow>
              db ?w (u, childPath ?p k) = db (snd s) (u, childPath ?p k)"
    by (simp add: db_updated_single writeAt_other_key)
  show ?thesis using r a t d1 d2 by simp
qed

theorem toggleSession_merge_write_witness:
  "truthy (isAuthed (signedIn 50)) \<and> clockOffset (fst (signedIn 50)) = 50 \<and>
   (\<exists>u uid w'.
           firebaseRef (fst (signedIn 50)) = Some u \<and> sdkAuth (snd (signedIn 50)) u = Some uid \<and>
           toggleSession ''abc'' True (Some 1000) (signedIn 50) =
             (Returns (JPromise (length (trace (snd (signedIn 50))))), fst (signedIn 50), w') \<and>
           trace w' = trace (snd (signedIn 50)) @
             [Update u (userPath uid ''my_sessions'')
                [(''abc'', JObj [(''timestamp'', JNum 1050), (''bookmarked'', JBool True)])]] \<and>
           db w' (u, childPath (userPath uid ''my_sessions'') ''abc'') =
             Some (JObj [(''timestamp'', JNum 1050), (''bookmarked'', JBool True)]) \<and>
           (\<forall>k. k \<noteq> ''abc'' \<and> CHR ''/'' \<notin> set k \<longrightarrow>
                db w' (u, childPath (userPath uid ''my_sessions'') k) =
                db (snd (signedIn 50)) (u, childPath (userPath uid ''my_sessions'') k)))"
proof -
  have a: "truthy (isAuthed (signedIn 50))" by (rule signedIn_authed)
  have b: "clockOffset (fst (signedIn 50)) = 50" by (simp add: signedIn_def)
  show ?thesis
    by (rule conjI [OF a conjI [OF b toggleSession_merge_write [OF a b]]])
qed

text \<open>The same computed on the signed-in state, where \<open>xyz\<close> was bookmarked before.\<close>

lemma toggleSession_example:
  "toggleSession ''abc'' True (Some 1000) (signedIn 50) =
     (Returns (JPromise 0), fst (signedIn 50),
      updated devUrl ''users/user-1/my_sessions''
        [(''abc'', JObj [(''timestamp'', JNum 1050), (''bookmarked'', JBool True)])]
        signedInWorld)"
  by (simp add: toggleSession_def resolveTimestamp_def abc_accepted
      updateFirebaseUserData_authed [of _ devUrl "''user-1''"] signedIn_def signedInWorld_def
      userPath_def)

lemma toggleSession_example_db:
  "db (updated devUrl ''users/user-1/my_sessions''
        [(''abc'', JObj [(''timestamp'', JNum 1050), (''bookmarked'', JBool True)])]
        signedInWorld) (devUrl, ''users/user-1/my_sessions/xyz'')
   = Some (JObj [(''timestamp'', JNum 7), (''bookmarked'', JBool True)])"
  by (simp add: db_updated_single writeAt_def childPath_def signedInWorld_def)

subsection \<open>Subscriptions\<close>

lemma registerToUpdates_unauthed:
  assumes "\<not> truthy (isAuthed s)"
  shows "registerToUpdates attribute cb s =
           (Returns JUndefined, fst s,
            debugLog ''Trying to subscribe to Firebase while not authorized.'' (snd s))"
  using assms by (simp add: registerToUpdates_def)

lemma registerToUpdates_authed:
  assumes "firebaseRef (fst s) = Some u" and "sdkAuth (snd s) u = Some uid"
  shows "registerToUpdates attribute cb s =
           (Returns JUndefined, fst s,
            sdkOn u (userPath uid attribute) child_removed (KeyNull cb)
              (sdkOn u (userPath uid attribute) child_changed (KeyVal cb)
                 (sdkOn u (userPath uid attribute) child_added (KeyVal cb) (snd s))))"
  using assms by (simp add: registerToUpdates_def isAuthed_def getAuth_def getAuthUid_def Let_def)

lemma registerToSessionUpdates_eq: "registerToSessionUpdates = registerToUpdates ''my_sessions''"
  by (rule ext)+ (simp add: registerToSessionUpdates_def)

lemma registerToFeedbackUpdates_eq: "registerToFeedbackUpdates = registerToUpdates ''feedback''"
  by (rule ext)+ (simp add: registerToFeedbackUpdates_def)

lemma childEvent_listeners:
  "childEvent u p e key val w =
     map (\<lambda>(u', p', e', h). runHandler h key val)
       (filter (\<lambda>(u', p', e', h). u' = u \<and> p' = p \<and> e' = e) (listeners w))"
  by (simp add: childEvent_def)

lemma registerToUpdates_listeners:
  assumes "firebaseRef (fst s) = Some u" and "sdkAuth (snd s) u = Some uid"
  shows "listeners (snd (snd (registerToUpdates attribute cb s))) =
           listeners (snd s) @
             [(u, userPath uid attribute, child_added, KeyVal cb),
              (u, userPath uid attribute, child_changed, KeyVal cb),
              (u, userPath uid attribute, child_removed, KeyNull cb)]"
    and "trace (snd (snd (registerToUpdates attribute cb s))) =
           trace (snd s) @
             [On u (userPath uid attribute) child_added (KeyVal cb),
              On u (userPath uid attribute) child_changed (KeyVal cb),
              On u (userPath uid attribute) child_removed (KeyNull cb)]"
    and "fst (registerToUpdates attribute cb s) = Returns JUndefined"
    and "fst (snd (registerToUpdates attribute cb s)) = fst s"
    and "sdkAuth (snd (snd (registerToUpdates attribute cb s))) = sdkAuth (snd s)"
  by (simp_all add: registerToUpdates_authed [OF assms])

lemma childEvent_after_register:
  assumes "firebaseRef (fst s) = Some u" and "sdkAuth (snd s) u = Some uid"
  shows "childEvent u (userPath uid attribute) e key val (snd (snd (registerToUpdates attribute cb s))) =
           childEvent u (userPath uid attribute) e key val (snd s) @
             [if e = child_removed then (cb, key, JNull) else (cb, key, val)]"
  by (cases e) (simp_all add: childEvent_listeners registerToUpdates_listeners(1) [OF assms])

lemma registerToUpdates_two:
  assumes r: "firebaseRef (fst s) = Some u" and a: "sdkAuth (snd s) u = Some uid"
  shows "(let p = userPath uid attribute;
                (r1, s1) = registerToUpdates attribute cb1 s;
                (r2, s2) = registerToUpdates attribute cb2 s1
            in r1 = Returns JUndefined \<and> fst s1 = fst s \<and>
               trace (snd s1) = trace (snd s) @
                 [On u p child_added (KeyVal cb1), On u p child_changed (KeyVal cb1),
                  On u p child_removed (KeyNull cb1)] \<and>
               childEvent u p child_added key val (snd s1) =
                 childEvent u p child_added key val (snd s) @ [(cb1, key, val)] \<and>
               childEvent u p child_changed key val (snd s1) =
                 childEvent u p child_changed key val (snd s) @ [(cb1, key, val)] \<and>
               childEvent u p child_removed key val (snd s1) =
                 childEvent u p child_removed key val (snd s) @ [(cb1, key, JNull)] \<and>
               childEvent u p child_removed key val (snd s2) =
                 childEvent u p child_removed key val (snd s) @ [(cb1, key, JNull), (cb2, key, JNull)])"
proof -
  obtain r1 s1 where s1: "registerToUpdates attribute cb1 s = (r1, s1)" by (cases "registerToUpdates attribute cb1 s")
  obtain r2 s2 where s2: "registerToUpdates attribute cb2 s1 = (r2, s2)" by (cases "registerToUpdates attribute cb2 s1")
  have r1: "r1 = Returns JUndefined" and f1: "fst s1 = fst s"
    and t1: "trace (snd s1) = trace (snd s) @
                 [On u (userPath uid attribute) child_added (KeyVal cb1),
                  On u (userPath uid attribute) child_changed (KeyVal cb1),
                  On u (userPath uid attribute) child_removed (KeyNull cb1)]"
    and a1: "sdkAuth (snd s1) = sdkAuth (snd s)"
    using registerToUpdates_listeners(2-5) [OF r a, of attribute cb1] s1 by simp_all
  have e1: "childEvent u (userPath uid attribute) e key val (snd s1) =
           childEvent u (userPath uid attribute) e key val (snd s) @
             [if e = child_removed then (cb1, key, JNull) else (cb1, key, val)]" for e
    using childEvent_after_register [OF r a, of attribute e key val cb1] s1 by simp
  have r': "firebaseRef (fst s1) = Some u" using r f1 by simp
  have a': "sdkAuth (snd s1) u = Some uid" using a a1 by simp
  have e2: "childEvent u (userPath uid attribute) child_removed key val (snd s2) =
           childEvent u (userPath uid attribute) child_removed key val (snd s1) @ [(cb2, key, JNull)]"
    using childEvent_after_register [OF r' a', of attribute child_removed key val cb2] s2 by simp
  show ?thesis
    using s1 s2 r1 f1 t1 e1 [of child_added] e1 [of child_changed] e1 [of child_removed] e2
    by simp
qed

text \<open>
  C7. A call of \<open>registerToSessionUpdates\<close> or \<open>registerToFeedbackUpdates\<close> on a
  signed-in object attaches exactly three handlers at the attribute's location, for
  \<open>child_added\<close>, \<open>child_changed\<close> and \<open>child_removed\<close>. When such an event happens
  for a child, the callback is called with the key and the value, and with \<open>null\<close> for
  the value on removal. After a second registration with another callback, a removal
  calls both callbacks with \<open>null\<close>, in the order of registration, after whatever
  listeners were there before.
\<close>

theorem subscriptions_attach_three_handlers:
  assumes "truthy (isAuthed s)"
    and "(subscribe, attribute) = (registerToSessionUpdates, ''my_sessions'') \<or>
         (subscribe, attribute) = (registerToFeedbackUpdates, ''feedback'')"
  shows "\<exists>u uid.
           firebaseRef (fst s) = Some u \<and> sdkAuth (snd s) u = Some uid \<and>
           (let p = userPath uid attribute;
                (r1, s1) = subscribe cb1 s;
                (r2, s2) = subscribe cb2 s1
            in r1 = Returns JUndefined \<and> fst s1 = fst s \<and>
               trace (snd s1) = trace (snd s) @
                 [On u p child_added (KeyVal cb1), On u p child_changed (KeyVal cb1),
                  On u p child_removed (KeyNull cb1)] \<and>
               childEvent u p child_added key val (snd s1) =
                 childEvent u p child_added key val (snd s) @ [(cb1, key, val)] \<and>
               childEvent u p child_changed key val (snd s1) =
                 childEvent u p child_changed key val (snd s) @ [(cb1, key, val)] \<and>
               childEvent u p child_removed key val (snd s1) =
                 childEvent u p child_removed key val (snd s) @ [(cb1, key, JNull)] \<and>
               childEvent u p child_removed key val (snd s2) =
                 childEvent u p child_removed key val (snd s) @ [(cb1, key, JNull), (cb2, key, JNull)])"
proof -
  from assms(1) obtain u uid where r: "firebaseRef (fst s) = Some u" and a: "sdkAuth (snd s) u = Some uid"
    by (auto simp: isAuthed_truthy_iff)
  from assms(2) have e: "subscribe = registerToUpdates attribute"
    by (auto simp: registerToSessionUpdates_eq registerToFeedbackUpdates_eq)
  show ?thesis
    unfolding e using r a registerToUpdates_two [OF r a, of attribute cb1 cb2 key val] by blast
qed

theorem subscriptions_attach_three_handlers_witness:
  "truthy (isAuthed (signedIn 50)) \<and>
   ((registerToSessionUpdates, ''my_sessions'') = (registerToSessionUpdates, ''my_sessions'') \<or>
    (registerToSessionUpdates, ''my_sessions'') = (registerToFeedbackUpdates, ''feedback'')) \<and>
   (\<exists>u uid.
           firebaseRef (fst (signedIn 50)) = Some u \<and> sdkAuth (snd (signedIn 50)) u = Some uid \<and>
           (let p = userPath uid ''my_sessions'';
                (r1, s1) = registerToSessionUpdates 1 (signedIn 50);
                (r2, s2) = registerToSessionUpdates 2 s1
            in r1 = Returns JUndefined \<and> fst s1 = fst (signedIn 50) \<and>
               trace (snd s1) = trace (snd (signedIn 50)) @
                 [On u p child_added (KeyVal 1), On u p child_changed (KeyVal 1),
                  On u p child_removed (KeyNull 1)] \<and>
               childEvent u p child_added ''xyz'' (JBool True) (snd s1) =
                 childEvent u p child_added ''xyz'' (JBool True) (snd (signedIn 50)) @ [(1, ''xyz'', JBool True)] \<and>
               childEvent u p child_changed ''xyz'' (JBool True) (snd s1) =
                 childEvent u p child_changed ''xyz'' (JBool True) (snd (signedIn 50)) @ [(1, ''xyz'', JBool True)] \<and>
               childEvent u p child_removed ''xyz'' (JBool True) (snd s1) =
                 childEvent u p child_removed ''xyz'' (JBool True) (snd (signedIn 50)) @ [(1, ''xyz'', JNull)] \<and>
               childEvent u p child_removed ''xyz'' (JBool True) (snd s2) =
                 childEvent u p child_removed ''xyz'' (JBool True) (snd (signedIn 50)) @ [(1, ''xyz'', JNull), (2, ''xyz'', JNull)]))"
proof -
  have a: "truthy (isAuthed (signedIn 50))" by (rule signedIn_authed)
  have b: "(registerToSessionUpdates, ''my_sessions'') = (registerToSessionUpdates, ''my_sessions'') \<or>
    (registerToSessionUpdates, ''my_sessions'') = (registerToFeedbackUpdates, ''feedback'')"
    by (rule disjI1) (rule refl)
  show ?thesis
    by (rule conjI [OF a conjI [OF b
          subscriptions_attach_three_handlers [OF a b, of 1 2 "''xyz''" "JBool True"]]])
qed

lemma two_subscribers_example:
  "childEvent devUrl ''users/user-1/my_sessions'' child_removed ''xyz'' (JBool True)
     (snd (snd (registerToSessionUpdates 2 (snd (registerToSessionUpdates 1 (signedIn 50))))))
   = [(1, ''xyz'', JNull), (2, ''xyz'', JNull)]"
  by (simp add: registerToSessionUpdates_def registerToUpdates_def isAuthed_def getAuth_def
      getAuthUid_def signedIn_def signedInWorld_def userPath_def sdkOn_def emit_def childEvent_def Let_def)

subsection \<open>Calls made while signed out\<close>

text \<open>
  C8. When \<open>isAuthed()\<close> is falsy, each of the four writing methods and the two
  subscribing methods returns normally with \<open>undefined\<close>, leaves the object as it was,
  and changes the world only by appending one debug-log line to the trace: no call
  reaches the client, no listener is attached, no data is written.
\<close>

theorem unauthenticated_calls_only_log:
  assumes "\<not> truthy (isAuthed s)"
  shows "toggleSession sessionUUID bookmarked timestamp s =
           (Returns JUndefined, fst s,
            (snd s)\<lparr>trace := trace (snd s) @ [DebugLog ''Trying to write to Firebase while not authorized.'']\<rparr>)
       \<and> markSessionRated sessionUUID timestamp s =
           (Returns JUndefined, fst s,
            (snd s)\<lparr>trace := trace (snd s) @ [DebugLog ''Trying to write to Firebase while not authorized.'']\<rparr>)
       \<and> markVideoAsViewed videoId timestamp s =
           (Returns JUndefined, fst s,
            (snd s)\<lparr>trace := trace (snd s) @ [DebugLog ''Trying to write to Firebase while not authorized.'']\<rparr>)
       \<and> addGcmId gcmId s =
           (Returns JUndefined, fst s,
            (snd s)\<lparr>trace := trace (snd s) @ [DebugLog ''Trying to write to Firebase while not authorized.'']\<rparr>)
       \<and> registerToSessionUpdates cb s =
           (Returns JUndefined, fst s,
            (snd s)\<lparr>trace := trace (snd s) @ [DebugLog ''Trying to subscribe to Firebase while not authorized.'']\<rparr>)
       \<and> registerToFeedbackUpdates cb s =
           (Returns JUndefined, fst s,
            (snd s)\<lparr>trace := trace (snd s) @ [DebugLog ''Trying to subscribe to Firebase while not authorized.'']\<rparr>)
       \<and> \<not> backendCall (DebugLog ''Trying to write to Firebase while not authorized.'')
       \<and> \<not> backendCall (DebugLog ''Trying to subscribe to Firebase while not authorized.'')"
  using assms
  by (simp add: toggleSession_def markSessionRated_def markVideoAsViewed_def addGcmId_def
      registerToSessionUpdates_def registerToFeedbackUpdates_def
      updateFirebaseUserData_unauthed registerToUpdates_unauthed debugLog_def emit_def)

theorem unauthenticated_calls_only_log_witness:
  "\<not> truthy (isAuthed signedOut) \<and>
   toggleSession ''abc'' True (Some 1000) signedOut =
     (Returns JUndefined, fst signedOut,
      (snd signedOut)\<lparr>trace := trace (snd signedOut) @
         [DebugLog ''Trying to write to Firebase while not authorized.'']\<rparr>)"
proof -
  have a: "\<not> truthy (isAuthed signedOut)" by (rule signedOut_unauthed)
  from unauthenticated_calls_only_log [OF a, of "''abc''" True "Some 1000"]
  have "toggleSession ''abc'' True (Some 1000) signedOut =
     (Returns JUndefined, fst signedOut,
      (snd signedOut)\<lparr>trace := trace (snd signedOut) @
         [DebugLog ''Trying to write to Firebase while not authorized.'']\<rparr>)"
    by (rule conjunct1)
  with a show ?thesis by (rule conjI)
qed

text \<open>Signed in, with a key the client refuses, the method throws what the client
  throws.\<close>

lemma mutation_throws_on_refused_key:
  assumes "truthy (isAuthed s)" and "clientRefusesKey k"
  shows "fst (toggleSession k bookmarked timestamp s) = Throws FirebaseError"
    and "fst (markSessionRated k timestamp s) = Throws FirebaseError"
    and "fst (markVideoAsViewed k timestamp s) = Throws FirebaseError"
    and "fst (addGcmId k s) = Throws FirebaseError"
proof -
  from assms(1) obtain u uid where r: "firebaseRef (fst s) = Some u" and a: "sdkAuth (snd s) u = Some uid"
    by (auto simp: isAuthed_truthy_iff)
  show "fst (toggleSession k bookmarked timestamp s) = Throws FirebaseError"
    and "fst (markSessionRated k timestamp s) = Throws FirebaseError"
    and "fst (markVideoAsViewed k timestamp s) = Throws FirebaseError"
    and "fst (addGcmId k s) = Throws FirebaseError"
    by (simp_all add: toggleSession_def markSessionRated_def markVideoAsViewed_def addGcmId_def
        updateFirebaseUserData_refused [OF r a assms(2)])
qed




subsection \<open>Signing in and the clock offset\<close>

text \<open>With \<open>crc32\<close> printing hexadecimal digits, the one configured shard is chosen and
  \<open>auth\<close> runs to its end. The callback of the credential exchange, whatever its outcome,
  neither touches \<open>clockOffset\<close> nor asks for the server time offset again.\<close>

lemma selectShard_static:
  assumes "hexDigest (crc32 userId)"
  shows "selectShard crc32 FIREBASE_DATABASES_URL userId = Some ''https://iowa-2016-dev.firebaseio.com/''"
proof -
  have p: "parseInt16 (crc32 userId) = Some (int (hexValue (hexDigits (crc32 userId))))"
    using assms by (rule parseInt16_hexDigest)
  show ?thesis
    by (simp add: selectShard_def p FIREBASE_DATABASES_URL_def jsRemainder_def arrayIndex_def)
qed

lemma auth_ok:
  assumes "selectShard crc32 FIREBASE_DATABASES_URL userId = Some u"
  shows "auth crc32 userId accessToken s =
           (Returns JUndefined, (fst s)\<lparr>firebaseRef := Some u\<rparr>,
            (snd s)\<lparr>trace := trace (snd s) @
               [ConsoleLog ''Chose the following Firebase Database Shard:'', NewFirebase u,
                AuthWithOAuthToken u ''google'' accessToken, Once u ''/.info/serverTimeOffset'']\<rparr>)"
  using assms by (simp add: auth_def Let_def updateClockOffset_def emit_def)

lemma setFirebaseUserData_frame:
  "clockOffset (fst (snd (setFirebaseUserData attribute v s))) = clockOffset (fst s) \<and>
   filter readsServerTimeOffset (trace (snd (snd (setFirebaseUserData attribute v s)))) =
     filter readsServerTimeOffset (trace (snd s))"
  by (auto simp: setFirebaseUserData_def sdkSet_def emit_def debugLog_def readsServerTimeOffset_def
      split: option.splits outcome.splits)

lemma bumpLastActivityTimestamp_frame:
  "clockOffset (fst (snd (bumpLastActivityTimestamp s))) = clockOffset (fst s) \<and>
   filter readsServerTimeOffset (trace (snd (snd (bumpLastActivityTimestamp s)))) =
     filter readsServerTimeOffset (trace (snd s))"
proof (cases "firebaseRef (fst s)")
  case None
  then show ?thesis by (simp add: bumpLastActivityTimestamp_def)
next
  case (Some u)
  show ?thesis
  proof (cases "getAuthUid (snd s) u")
    case (Throws e)
    with Some show ?thesis by (simp add: bumpLastActivityTimestamp_def)
  next
    case (Returns uid)
    with Some show ?thesis
      using setFirebaseUserData_frame [of "''last_activity_timestamp''" ServerTimestamp
          "(fst s, emit (OnDisconnectSet u (userPath uid ''last_activity_timestamp'') ServerTimestamp) (snd s))"]
      by (simp add: bumpLastActivityTimestamp_def emit_def readsServerTimeOffset_def)
  qed
qed

lemma authCallback_frame:
  "clockOffset (fst (snd (authCallback u err s))) = clockOffset (fst s) \<and>
   filter readsServerTimeOffset (trace (snd (snd (authCallback u err s)))) =
     filter readsServerTimeOffset (trace (snd s))"
proof (cases err)
  case (Some e)
  then show ?thesis
    by (simp add: authCallback_def debugLog_def emit_def readsServerTimeOffset_def)
next
  case None
  obtain r t w where b: "bumpLastActivityTimestamp s = (r, t, w)"
    by (cases "bumpLastActivityTimestamp s") auto
  with bumpLastActivityTimestamp_frame [of s]
  have "clockOffset t = clockOffset (fst s)"
    and "filter readsServerTimeOffset (trace w) = filter readsServerTimeOffset (trace (snd s))"
    by simp_all
  with None b show ?thesis
    by (cases r) (simp_all add: authCallback_def debugLog_def emit_def readsServerTimeOffset_def)
qed

lemma authCompletes_frame:
  "clockOffset (fst (snd (authCompletes u r s))) = clockOffset (fst s) \<and>
   filter readsServerTimeOffset (trace (snd (snd (authCompletes u r s)))) =
     filter readsServerTimeOffset (trace (snd s))"
proof (cases r)
  case (AuthOk uid)
  then show ?thesis
    using authCallback_frame [of u None "(fst s, (snd s)\<lparr>sdkAuth := (sdkAuth (snd s))(u \<mapsto> uid)\<rparr>)"]
    by (simp add: authCompletes_def)
next
  case (AuthFailed e)
  then show ?thesis using authCallback_frame [of u "Some e" s] by (simp add: authCompletes_def)
qed

lemma clockOffsetCallback_frame:
  "clockOffset (fst (clockOffsetCallback v s)) = v \<and>
   filter readsServerTimeOffset (trace (snd (clockOffsetCallback v s))) =
     filter readsServerTimeOffset (trace (snd s))"
  by (simp add: clockOffsetCallback_def debugLog_def emit_def readsServerTimeOffset_def)

text \<open>
  C9. Every call of \<open>auth(userId, accessToken)\<close> ends by asking once for the value at
  \<open>/.info/serverTimeOffset\<close>, before the outcome of the credential exchange is known.
  Whether the exchange then succeeds or fails, and whether the offset arrives before or
  after that outcome, the value delivered is what \<open>clockOffset\<close> holds afterwards, and
  the trace has exactly one such request more than before the call.
\<close>

theorem auth_refreshes_clock_offset:
  assumes "hexDigest (crc32 userId)"
  shows "\<exists>u s1.
           auth crc32 userId accessToken s = (Returns JUndefined, s1) \<and>
           firebaseRef (fst s1) = Some u \<and>
           trace (snd s1) = trace (snd s) @
             [ConsoleLog ''Chose the following Firebase Database Shard:'', NewFirebase u,
              AuthWithOAuthToken u ''google'' accessToken, Once u ''/.info/serverTimeOffset''] \<and>
           (\<forall>r v.
              clockOffset (fst (clockOffsetCallback v (snd (authCompletes u r s1)))) = v \<and>
              clockOffset (fst (snd (authCompletes u r (clockOffsetCallback v s1)))) = v \<and>
              length (filter readsServerTimeOffset
                        (trace (snd (clockOffsetCallback v (snd (authCompletes u r s1)))))) =
                length (filter readsServerTimeOffset (trace (snd s))) + 1 \<and>
              length (filter readsServerTimeOffset
                        (trace (snd (snd (authCompletes u r (clockOffsetCallback v s1)))))) =
                length (filter readsServerTimeOffset (trace (snd s))) + 1)"
proof -
  let ?u = "''https://iowa-2016-dev.firebaseio.com/''"
  let ?s1 = "((fst s)\<lparr>firebaseRef := Some ?u\<rparr>,
            (snd s)\<lparr>trace := trace (snd s) @
               [ConsoleLog ''Chose the following Firebase Database Shard:'', NewFirebase ?u,
                AuthWithOAuthToken ?u ''google'' accessToken, Once ?u ''/.info/serverTimeOffset'']\<rparr>)"
  have a: "auth crc32 userId accessToken s = (Returns JUndefined, ?s1)"
    using auth_ok [OF selectShard_static [of crc32 userId, OF assms]] .
  have f: "filter readsServerTimeOffset (trace (snd ?s1)) =
             filter readsServerTimeOffset (trace (snd s)) @ [Once ?u ''/.info/serverTimeOffset'']"
    by (simp add: readsServerTimeOffset_def)
  have "clockOffset (fst (clockOffsetCallback v (snd (authCompletes ?u r ?s1)))) = v \<and>
        clockOffset (fst (snd (authCompletes ?u r (clockOffsetCallback v ?s1)))) = v \<and>
        length (filter readsServerTimeOffset
                  (trace (snd (clockOffsetCallback v (snd (authCompletes ?u r ?s1)))))) =
          length (filter readsServerTimeOffset (trace (snd s))) + 1 \<and>
        length (filter readsServerTimeOffset
                  (trace (snd (snd (authCompletes ?u r (clockOffsetCallback v ?s1)))))) =
          length (filter readsServerTimeOffset (trace (snd s))) + 1" for r v
    using clockOffsetCallback_frame [of v "snd (authCompletes ?u r ?s1)"]
      clockOffsetCallback_frame [of v ?s1]
      authCompletes_frame [of ?u r ?s1]
      authCompletes_frame [of ?u r "clockOffsetCallback v ?s1"] f
    by simp
  then show ?thesis using a by simp
qed

theorem auth_refreshes_clock_offset_witness:
  "hexDigest ''1f'' \<and>
   (\<exists>u s1.
           auth (\<lambda>s. ''1f'') ''user-1'' ''token'' signedOut = (Returns JUndefined, s1) \<and>
           firebaseRef (fst s1) = Some u \<and>
           trace (snd s1) = trace (snd signedOut) @
             [ConsoleLog ''Chose the following Firebase Database Shard:'', NewFirebase u,
              AuthWithOAuthToken u ''google'' ''token'', Once u ''/.info/serverTimeOffset''] \<and>
           (\<forall>r v.
              clockOffset (fst (clockOffsetCallback v (snd (authCompletes u r s1)))) = v \<and>
              clockOffset (fst (snd (authCompletes u r (clockOffsetCallback v s1)))) = v \<and>
              length (filter readsServerTimeOffset
                        (trace (snd (clockOffsetCallback v (snd (authCompletes u r s1)))))) =
                length (filter readsServerTimeOffset (trace (snd signedOut))) + 1 \<and>
              length (filter readsServerTimeOffset
                        (trace (snd (snd (authCompletes u r (clockOffsetCallback v s1)))))) =
                length (filter readsServerTimeOffset (trace (snd signedOut))) + 1))"
proof -
  have a: "hexDigest ''1f''" by code_simp
  show ?thesis
    by (rule conjI [OF a auth_refreshes_clock_offset
          [of "\<lambda>s. ''1f''" "''user-1''" "''token''" signedOut, OF a]])
qed

text \<open>The calls of one \<open>auth\<close> on the fresh object, and the offset stored after a failed
  exchange.\<close>

lemma auth_trace_example:
  "trace (snd (snd (auth (\<lambda>s. ''1f'') ''user-1'' ''token'' signedOut))) =
     [AddEventListener ''visibilitychange'',
      ConsoleLog ''Chose the following Firebase Database Shard:'', NewFirebase devUrl,
      AuthWithOAuthToken devUrl ''google'' ''token'', Once devUrl ''/.info/serverTimeOffset'']"
proof -
  have a: "hexDigest ''1f''" by code_simp
  show ?thesis
    by (simp add: auth_ok [OF selectShard_static [of "\<lambda>s. ''1f''" "''user-1''", OF a]]
        signedOut_def constructor_def emptyWorld_def emit_def devUrl_def)
qed

lemma auth_example:
  "clockOffset (fst (clockOffsetCallback 50
      (snd (authCompletes devUrl (AuthFailed ''expired'')
         (snd (auth (\<lambda>s. ''1f'') ''user-1'' ''token'' signedOut)))))) = 50"
  by (simp add: clockOffsetCallback_def)

end
